theory Spec2Isabelle
  imports Complex_Main "HOL-Library.AList"
begin

section \<open>Configuration values and validation errors\<close>

text \<open>
  The component is the Python module \<^verbatim>\<open>components/stream_server/__init__.py\<close>. It is
  glue for the ESPHome host framework: it builds \<^verbatim>\<open>CONFIG_SCHEMA\<close> from the validators of
  \<^verbatim>\<open>esphome.config_validation\<close> (imported as \<^verbatim>\<open>cv\<close>) and its \<^verbatim>\<open>to_code\<close> calls
  \<^verbatim>\<open>esphome.codegen\<close> (imported as \<^verbatim>\<open>cg\<close>).

  A configuration block is what the YAML loader hands to the schema: a Python value.
  Finite floats are rationals here; a key of a dictionary is a string, and a dictionary
  keeps its insertion order, as Python's does.
\<close>

datatype pyvalue =
    PyNone
  | PyBool bool
  | PyInt int
  | PyFloat rat
  | PyStr string
  | PyLambda string
  | PyList "pyvalue list"
  | PyDict "(string \<times> pyvalue) list"
  | PyID "string option" bool string

text \<open>
  \<open>PyLambda\<close> is a \<^verbatim>\<open>!lambda\<close> template, \<open>PyID name is_declaration type\<close> is the framework's
  \<^verbatim>\<open>core.ID\<close> (\<open>name = None\<close> until the framework generates one).

  \<^verbatim>\<open>Invalid\<close> exceptions, by what they report. A validator returns \<open>Inl\<close> of the errors it
  raised (one for \<^verbatim>\<open>Invalid\<close>, all of them for \<^verbatim>\<open>MultipleInvalid\<close>) or \<open>Inr\<close> of the
  validated value.
\<close>

datatype invalid =
    RequiresVersion nat nat nat
  | NotTemplatable
  | FractionalPart
  | MustBeString
  | CannotParseInteger string
  | ValueAtLeast int
  | ValueAtMost int
  | NoPartialOrdering
  | ExpectedDictionary
  | ExtraKeysNotAllowed string
  | RequiredKeyNotProvided string
  | InvalidIDName string
  | RequiresComponent string string
  | TooManyEntries string nat nat
  | ExpectedFloat

type_synonym 'a validated = "invalid list + 'a"
type_synonym validator = "pyvalue \<Rightarrow> pyvalue validated"

datatype py_error = KeyError string | TypeError

section \<open>The host framework\<close>

text \<open>
  What the module takes from the installed framework and cannot fix itself: the
  framework's version (\<^verbatim>\<open>esphome.const.__version__\<close>, parsed to year, month, patch), the
  entries of \<^verbatim>\<open>cv.COMPONENT_SCHEMA\<close>, and the check of a user-written identifier
  (\<^verbatim>\<open>cv.validate_id_name\<close>, which consults the framework's reserved names).
\<close>

datatype marker = Required string | Optional string "pyvalue option"

type_synonym schema = "(marker \<times> validator) list"

record host =
  esphome_version :: "nat \<times> nat \<times> nat"
  COMPONENT_SCHEMA :: schema
  validate_id_name :: "pyvalue \<Rightarrow> invalid + string"

definition CONF_ID :: string where
  "CONF_ID = ''id''"

definition CONF_PORT :: string where
  "CONF_PORT = ''port''"

subsection \<open>Python's int(string, base)\<close>

definition py_isspace :: "char \<Rightarrow> bool" where
  "py_isspace c \<longleftrightarrow> (let n = (of_char c :: nat) in n = 32 \<or> (9 \<le> n \<and> n \<le> 13))"

definition digit_value :: "char \<Rightarrow> nat option" where
  "digit_value c =
     (let n = (of_char c :: nat) in
      if 48 \<le> n \<and> n \<le> 57 then Some (n - 48)
      else if 97 \<le> n \<and> n \<le> 122 then Some (n - 87)
      else if 65 \<le> n \<and> n \<le> 90 then Some (n - 55)
      else None)"

definition is_digit :: "nat \<Rightarrow> char \<Rightarrow> bool" where
  "is_digit base c = (case digit_value c of None \<Rightarrow> False | Some d \<Rightarrow> d < base)"

definition lower_char :: "char \<Rightarrow> char" where
  "lower_char c =
     (let n = (of_char c :: nat) in if 65 \<le> n \<and> n \<le> 90 then char_of (n + 32) else c)"

definition lower :: "string \<Rightarrow> string" where
  "lower s = map lower_char s"

fun startswith :: "string \<Rightarrow> string \<Rightarrow> bool" where
  "startswith s [] = True"
| "startswith [] (p # ps) = False"
| "startswith (c # cs) (p # ps) = (c = p \<and> startswith cs ps)"

fun underscores_ok :: "string \<Rightarrow> bool" where
  "underscores_ok [] = True"
| "underscores_ok [c] = (c \<noteq> CHR ''_'')"
| "underscores_ok (c # d # cs) =
     (\<not> (c = CHR ''_'' \<and> d = CHR ''_'') \<and> underscores_ok (d # cs))"

fun digits_value :: "nat \<Rightarrow> nat \<Rightarrow> string \<Rightarrow> nat" where
  "digits_value base acc [] = acc"
| "digits_value base acc (c # cs) =
     (case digit_value c of
        None \<Rightarrow> digits_value base acc cs
      | Some d \<Rightarrow> digits_value base (acc * base + d) cs)"

text \<open>
  \<^verbatim>\<open>int(s, base)\<close> for \<open>base\<close> 10 or 16 on an ASCII string, \<open>None\<close> where Python raises
  \<^verbatim>\<open>ValueError\<close>: white space around the number is skipped, a sign may lead, base 16
  may carry the prefix \<^verbatim>\<open>0x\<close> (and one underscore after it), and the digits may be
  separated by single underscores.
\<close>

definition py_int :: "string \<Rightarrow> nat \<Rightarrow> int option" where
  "py_int s base =
     (let s1 = dropWhile py_isspace s;
          neg = startswith s1 ''-'';
          s2 = (if startswith s1 ''-'' \<or> startswith s1 ''+'' then tl s1 else s1);
          s3 = (if base = 16 \<and> (startswith s2 ''0x'' \<or> startswith s2 ''0X'')
                then (let r = drop 2 s2 in if startswith r ''_'' then tl r else r)
                else s2);
          body = takeWhile (\<lambda>c. is_digit base c \<or> c = CHR ''_'') s3;
          rest = dropWhile (\<lambda>c. is_digit base c \<or> c = CHR ''_'') s3
      in if startswith s3 ''_'' \<or> body = [] \<or> \<not> underscores_ok body
            \<or> dropWhile py_isspace rest \<noteq> []
         then None
         else Some (if neg then - int (digits_value base 0 body)
                    else int (digits_value base 0 body)))"

subsection \<open>Validators of esphome.config_validation\<close>

text \<open>\<^verbatim>\<open>cv.All(*validators)\<close>: the validators run in order, each on the previous one's
  result; the first \<^verbatim>\<open>Invalid\<close> ends the chain.\<close>

fun cv_All :: "validator list \<Rightarrow> validator" where
  "cv_All [] v = Inr v"
| "cv_All (f # fs) v = (case f v of Inl e \<Rightarrow> Inl e | Inr v' \<Rightarrow> cv_All fs v')"

text \<open>Python compares the version tuples lexicographically.\<close>

fun tuple_lt :: "nat \<times> nat \<times> nat \<Rightarrow> nat \<times> nat \<times> nat \<Rightarrow> bool" where
  "tuple_lt (a, b, c) (x, y, z) \<longleftrightarrow> a < x \<or> (a = x \<and> (b < y \<or> (b = y \<and> c < z)))"

text \<open>\<^verbatim>\<open>cv.require_esphome_version(year, month, patch)\<close>: raises when the framework's
  version is below the one required, and returns the value unchanged otherwise.\<close>

definition require_esphome_version :: "host \<Rightarrow> nat \<Rightarrow> nat \<Rightarrow> nat \<Rightarrow> validator" where
  "require_esphome_version h year month patch value =
     (if tuple_lt (esphome_version h) (year, month, patch)
      then Inl [RequiresVersion year month patch]
      else Inr value)"

text \<open>Python's \<^verbatim>\<open>int(x)\<close> on a float truncates towards zero.\<close>

definition py_trunc :: "rat \<Rightarrow> int" where
  "py_trunc f = (if 0 \<le> f then \<lfloor>f\<rfloor> else \<lceil>f\<rceil>)"

text \<open>
  \<^verbatim>\<open>cv.int_\<close>: a template is refused; an \<^verbatim>\<open>int\<close> (Python's \<^verbatim>\<open>bool\<close> is one) is
  returned as it is; a float without fractional part is converted; anything else must
  be a string, which is lowered and parsed in base 16 when it starts with \<^verbatim>\<open>0x\<close> and
  in base 10 otherwise.
\<close>

definition cv_int :: validator where
  "cv_int value =
     (case value of
        PyLambda src \<Rightarrow> Inl [NotTemplatable]
      | PyBool b \<Rightarrow> Inr (PyBool b)
      | PyInt n \<Rightarrow> Inr (PyInt n)
      | PyFloat f \<Rightarrow>
          if of_int (py_trunc f) = f then Inr (PyInt (py_trunc f)) else Inl [FractionalPart]
      | PyStr s \<Rightarrow>
          (let v = lower s; base = (if startswith v ''0x'' then 16 else 10)
           in case py_int v base of
                Some n \<Rightarrow> Inr (PyInt n)
              | None \<Rightarrow> Inl [CannotParseInteger v])
      | _ \<Rightarrow> Inl [MustBeString])"

text \<open>The number a Python value compares as (\<^verbatim>\<open>True\<close> is 1, \<^verbatim>\<open>False\<close> is 0).\<close>

fun number_of :: "pyvalue \<Rightarrow> rat option" where
  "number_of (PyBool b) = Some (if b then 1 else 0)"
| "number_of (PyInt n) = Some (of_int n)"
| "number_of (PyFloat f) = Some f"
| "number_of _ = None"

text \<open>The integer a Python \<^verbatim>\<open>int\<close> is, \<^verbatim>\<open>bool\<close> included.\<close>

fun int_value :: "pyvalue \<Rightarrow> int option" where
  "int_value (PyBool b) = Some (if b then 1 else 0)"
| "int_value (PyInt n) = Some n"
| "int_value v = None"

text \<open>\<^verbatim>\<open>cv.Range(min=mn, max=mx)\<close>, both bounds included; the value is returned
  unchanged.\<close>

definition cv_Range :: "int \<Rightarrow> int \<Rightarrow> validator" where
  "cv_Range mn mx v =
     (case number_of v of
        None \<Rightarrow> Inl [NoPartialOrdering]
      | Some x \<Rightarrow>
          if \<not> of_int mn \<le> x then Inl [ValueAtLeast mn]
          else if \<not> x \<le> of_int mx then Inl [ValueAtMost mx]
          else Inr v)"

text \<open>\<^verbatim>\<open>cv.port = All(int_, Range(min=1, max=65535))\<close>.\<close>

definition port :: validator where
  "port = cv_All [cv_int, cv_Range 1 65535]"

text \<open>
  \<^verbatim>\<open>cv.GenerateID()\<close> is \<^verbatim>\<open>Optional(CONF_ID, default=lambda: None)\<close>, and
  \<^verbatim>\<open>cv.declare_id(type)\<close> turns \<^verbatim>\<open>None\<close> into an identifier still to be generated and a
  written name, once checked, into a declared identifier.
\<close>

definition GenerateID :: marker where
  "GenerateID = Optional CONF_ID (Some PyNone)"

definition declare_id :: "host \<Rightarrow> string \<Rightarrow> validator" where
  "declare_id h type value =
     (case value of
        PyLambda src \<Rightarrow> Inl [NotTemplatable]
      | PyNone \<Rightarrow> Inr (PyID None True type)
      | _ \<Rightarrow> (case validate_id_name h value of
                Inl e \<Rightarrow> Inl [e]
              | Inr name \<Rightarrow> Inr (PyID (Some name) True type)))"

subsection \<open>cv.Schema on a dictionary\<close>

fun marker_key :: "marker \<Rightarrow> string" where
  "marker_key (Required k) = k"
| "marker_key (Optional k d) = k"

definition schema_keys :: "schema \<Rightarrow> string list" where
  "schema_keys sch = map (marker_key \<circ> fst) sch"

text \<open>\<^verbatim>\<open>Schema.extend\<close>: an entry of the extension replaces the entry of the same key and
  goes to the end.\<close>

definition extend_schema :: "schema \<Rightarrow> schema \<Rightarrow> schema" where
  "extend_schema base ext =
     filter (\<lambda>e. marker_key (fst e) \<notin> set (schema_keys ext)) base @ ext"

text \<open>The dictionary built from the items given (a repeated key keeps its place and
  takes the later value).\<close>

definition key_value_map :: "(string \<times> pyvalue) list \<Rightarrow> (string \<times> pyvalue) list" where
  "key_value_map kvs = fold (\<lambda>kv m. AList.update (fst kv) (snd kv) m) kvs []"

text \<open>A default is inserted for every \<open>Optional\<close> key that has one and is missing.\<close>

fun insert_defaults :: "schema \<Rightarrow> (string \<times> pyvalue) list \<Rightarrow> (string \<times> pyvalue) list" where
  "insert_defaults [] m = m"
| "insert_defaults ((Optional k (Some d), f) # sch) m =
     insert_defaults sch (if k \<in> fst ` set m then m else m @ [(k, d)])"
| "insert_defaults (e # sch) m = insert_defaults sch m"

definition candidate :: "schema \<Rightarrow> string \<Rightarrow> (marker \<times> validator) option" where
  "candidate sch key = find (\<lambda>e. marker_key (fst e) = key) sch"

text \<open>Every item is validated by the entry of its key; a key without an entry is an
  extra key (\<^verbatim>\<open>PREVENT_EXTRA\<close>, the default of \<^verbatim>\<open>cv.Schema\<close>). The errors are collected.\<close>

fun validate_items ::
  "schema \<Rightarrow> (string \<times> pyvalue) list \<Rightarrow> invalid list \<times> (string \<times> pyvalue) list" where
  "validate_items sch [] = ([], [])"
| "validate_items sch ((key, value) # items) =
     (let (errors, out) = validate_items sch items in
      case candidate sch key of
        None \<Rightarrow> (ExtraKeysNotAllowed key # errors, out)
      | Some (m, f) \<Rightarrow>
          (case f value of
             Inl es \<Rightarrow> (es @ errors, out)
           | Inr cval \<Rightarrow> (errors, (key, cval) # out)))"

fun missing_required :: "schema \<Rightarrow> (string \<times> pyvalue) list \<Rightarrow> invalid list" where
  "missing_required [] m = []"
| "missing_required ((Required k, f) # sch) m =
     (if k \<in> fst ` set m then missing_required sch m
      else RequiredKeyNotProvided k # missing_required sch m)"
| "missing_required (e # sch) m = missing_required sch m"

definition Schema :: "schema \<Rightarrow> validator" where
  "Schema sch data =
     (case data of
        PyDict kvs \<Rightarrow>
          (let m = insert_defaults sch (key_value_map kvs);
               (errors, out) = validate_items sch m;
               errors' = errors @ missing_required sch m
           in if errors' \<noteq> [] then Inl errors' else Inr (PyDict out))
      | _ \<Rightarrow> Inl [ExpectedDictionary])"

section \<open>The component module\<close>

definition AUTO_LOAD :: "string list" where
  "AUTO_LOAD = [''socket'']"

definition DEPENDENCIES :: "string list" where
  "DEPENDENCIES = [''network'']"



definition StreamServerComponent :: string where
  "StreamServerComponent = ''StreamServerComponent''"

definition CONFIG_SCHEMA :: "host \<Rightarrow> validator" where
  "CONFIG_SCHEMA h =
     cv_All [
       require_esphome_version h 2022 3 0,
       Schema (extend_schema
         [(GenerateID, declare_id h StreamServerComponent),
          (Optional CONF_PORT (Some (PyInt 6638)), port)]
         (COMPONENT_SCHEMA h))
     ]"

text \<open>
  \<^verbatim>\<open>config[key]\<close>: \<^verbatim>\<open>KeyError\<close> when the dictionary has no such key, \<^verbatim>\<open>TypeError\<close>
  when the value is no dictionary.
\<close>

definition getitem :: "pyvalue \<Rightarrow> string \<Rightarrow> py_error + pyvalue" where
  "getitem config key =
     (case config of
        PyDict kvs \<Rightarrow> (case map_of kvs key of None \<Rightarrow> Inl (KeyError key) | Some v \<Rightarrow> Inr v)
      | _ \<Rightarrow> Inl TypeError)"

subsection \<open>Code generation\<close>

text \<open>
  \<^verbatim>\<open>to_code\<close> builds no data of its own: it calls \<^verbatim>\<open>esphome.codegen\<close>, and each call
  appends to the framework's list of generated code. The model records the calls, in
  order: \<open>New_Pvariable i\<close> for \<^verbatim>\<open>cg.new_Pvariable(i)\<close>, which declares the variable of
  identifier \<open>i\<close> and returns the expression that stands for it, \<open>Add e\<close> for \<^verbatim>\<open>cg.add(e)\<close>,
  and \<open>Register_component var config\<close> for \<^verbatim>\<open>cg.register_component(var, config)\<close>.
\<close>

datatype expression = Var pyvalue | MethodCall expression string "pyvalue list"

datatype action =
    New_Pvariable pyvalue
  | Add expression
  | Register_component expression pyvalue

definition new_Pvariable :: "pyvalue \<Rightarrow> action list \<Rightarrow> expression \<times> action list" where
  "new_Pvariable i code = (Var i, code @ [New_Pvariable i])"

definition add :: "expression \<Rightarrow> action list \<Rightarrow> action list" where
  "add e code = code @ [Add e]"

definition register_component :: "expression \<Rightarrow> pyvalue \<Rightarrow> action list \<Rightarrow> action list" where
  "register_component var config code = code @ [Register_component var config]"

definition set_port :: "expression \<Rightarrow> pyvalue \<Rightarrow> expression" where
  "set_port var p = MethodCall var ''set_port'' [p]"

text \<open>\<^verbatim>\<open>to_code(config)\<close>, on the code generated so far; a failed lookup raises and leaves
  the code as it was at that point.\<close>

definition to_code :: "pyvalue \<Rightarrow> action list \<Rightarrow> (py_error + unit) \<times> action list" where
  "to_code config code =
     (case getitem config CONF_ID of
        Inl e \<Rightarrow> (Inl e, code)
      | Inr i \<Rightarrow>
          (let (var, code1) = new_Pvariable i code in
           case getitem config CONF_PORT of
             Inl e \<Rightarrow> (Inl e, code1)
           | Inr p \<Rightarrow>
               (let code2 = add (set_port var p) code1;
                    code3 = register_component var config code2
                in (Inr (), code3))))"



subsection \<open>What the framework's loader does with the module's constants\<close>

text \<open>
  The loader (\<^verbatim>\<open>esphome.config\<close>) reads \<^verbatim>\<open>AUTO_LOAD\<close>, \<^verbatim>\<open>DEPENDENCIES\<close> and
  \<^verbatim>\<open>MULTI_CONF\<close> of the module. The top-level configuration is a dictionary from
  component names to their blocks.

  Every name of \<^verbatim>\<open>AUTO_LOAD\<close> that the configuration lacks is loaded with an empty block.
\<close>

definition process_auto_load ::
  "string list \<Rightarrow> (string \<times> pyvalue) list \<Rightarrow> (string \<times> pyvalue) list" where
  "process_auto_load auto_load result =
     fold (\<lambda>load r. if load \<in> fst ` set r then r else r @ [(load, PyDict [])]) auto_load result"

text \<open>Every name of \<^verbatim>\<open>DEPENDENCIES\<close> that the configuration lacks is an error: the
  component \<open>domain\<close> requires the component of that name.\<close>

definition check_dependencies ::
  "string \<Rightarrow> string list \<Rightarrow> (string \<times> pyvalue) list \<Rightarrow> invalid list" where
  "check_dependencies domain deps result =
     map (RequiresComponent domain) (filter (\<lambda>d. d \<notin> fst ` set result) deps)"



subsection \<open>A host to run the definitions on\<close>

text \<open>
  ESPHome 2022.3.0 with a component schema of one optional key, \<^verbatim>\<open>setup_priority\<close>, that
  takes a number, and identifiers that are non-empty strings. The general statements
  below hold for every host; this one gives them concrete inputs.
\<close>

definition example_host :: host where
  "example_host =
     \<lparr>esphome_version = (2022, 3, 0),
      COMPONENT_SCHEMA =
        [(Optional ''setup_priority'' None,
          \<lambda>v. case number_of v of None \<Rightarrow> Inl [ExpectedFloat] | Some x \<Rightarrow> Inr v)],
      validate_id_name =
        (\<lambda>v. case v of
               PyStr s \<Rightarrow> if s = [] then Inl (InvalidIDName s) else Inr s
             | _ \<Rightarrow> Inl (InvalidIDName []))\<rparr>"

section \<open>The runtime bridge\<close>


text \<open>Modelled from the spec: the Connection of section 3, with the handle of its socket,
  its two byte queues and its state.\<close>

datatype conn_state = Connecting | Active | Closing | Closed






















section \<open>Properties of the validators\<close>

lemma CONFIG_SCHEMA_old:
  "tuple_lt (esphome_version h) (2022, 3, 0) \<Longrightarrow> CONFIG_SCHEMA h config = Inl [RequiresVersion 2022 3 0]"
  by (simp add: CONFIG_SCHEMA_def require_esphome_version_def)

lemma CONFIG_SCHEMA_new:
  "\<not> tuple_lt (esphome_version h) (2022, 3, 0) \<Longrightarrow>
   CONFIG_SCHEMA h config =
     Schema (extend_schema [(GenerateID, declare_id h StreamServerComponent),
          (Optional CONF_PORT (Some (PyInt 6638)), port)] (COMPONENT_SCHEMA h)) config"
  by (simp add: CONFIG_SCHEMA_def require_esphome_version_def split: sum.splits)


lemma keys_fold_update:
  "fst ` set (fold (\<lambda>kv m. AList.update (fst kv) (snd kv) m) kvs acc) = fst ` set acc \<union> fst ` set kvs"
  by (induction kvs arbitrary: acc) (auto simp: dom_update)

lemma keys_key_value_map: "fst ` set (key_value_map kvs) = fst ` set kvs"
  by (simp add: key_value_map_def keys_fold_update)



lemma insert_defaults_prefix: "\<exists>added. insert_defaults sch m = m @ added"
proof (induction sch m rule: insert_defaults.induct)
  case (2 k d f sch m)
  show ?case
  proof (cases "k \<in> fst ` set m")
    case True
    then show ?thesis using 2 by simp
  next
    case False
    then obtain added where "insert_defaults sch (m @ [(k, d)]) = (m @ [(k, d)]) @ added"
      using 2 by auto
    then show ?thesis using False by simp
  qed
qed simp_all

lemma insert_defaults_keys_mono: "fst ` set m \<subseteq> fst ` set (insert_defaults sch m)"
proof -
  obtain added where "insert_defaults sch m = m @ added"
    using insert_defaults_prefix by blast
  then show ?thesis by auto
qed


lemma insert_defaults_has_default:
  "(Optional k (Some d), f) \<in> set sch \<Longrightarrow> k \<in> fst ` set (insert_defaults sch m)"
proof (induction sch m rule: insert_defaults.induct)
  case (1 m)
  then show ?case by simp
next
  case (2 k' d' f' sch m)
  let ?m' = "if k' \<in> fst ` set m then m else m @ [(k', d')]"
  show ?case
  proof (cases "(Optional k (Some d), f) \<in> set sch")
    case True
    then show ?thesis using 2 by simp
  next
    case False
    then have "k' = k" using 2(2) by auto
    then have "k \<in> fst ` set ?m'" by (cases "k' \<in> fst ` set m") auto
    then have "k \<in> fst ` set (insert_defaults sch ?m')"
      using insert_defaults_keys_mono [of ?m' sch] by blast
    then show ?thesis by simp
  qed
qed auto


lemma validate_items_extra:
  "(k, v) \<in> set m \<Longrightarrow> candidate sch k = None \<Longrightarrow>
   ExtraKeysNotAllowed k \<in> set (fst (validate_items sch m))"
proof (induction m)
  case Nil
  then show ?case by simp
next
  case (Cons kv m)
  show ?case
  proof (cases "kv = (k, v)")
    case True
    then show ?thesis using Cons.prems by (simp split: prod.splits)
  next
    case False
    then have "ExtraKeysNotAllowed k \<in> set (fst (validate_items sch m))"
      using Cons by simp
    then show ?thesis
      by (cases kv) (auto split: prod.splits option.splits sum.splits)
  qed
qed

lemma validate_items_ok:
  "fst (validate_items sch m) = [] \<Longrightarrow> map_of m k = Some v \<Longrightarrow>
   \<exists>mk f. candidate sch k = Some (mk, f) \<and>
     (f v = Inl [] \<or> (\<exists>r. f v = Inr r \<and> map_of (snd (validate_items sch m)) k = Some r))"
proof (induction m)
  case Nil
  then show ?case by simp
next
  case (Cons kv m)
  obtain k' v' where kv: "kv = (k', v')" by (cases kv)
  obtain errors out where rec: "validate_items sch m = (errors, out)"
    by (cases "validate_items sch m")
  have errs: "errors = []"
    using Cons.prems(1) kv rec by (auto split: option.splits sum.splits)
  show ?case
  proof (cases "k' = k")
    case True
    then have "v' = v" using Cons.prems(2) kv by simp
    then show ?thesis
      using Cons.prems(1) kv rec True by (auto split: option.splits sum.splits)
  next
    case False
    then have "map_of m k = Some v" using Cons.prems(2) kv by simp
    then obtain mk f where c: "candidate sch k = Some (mk, f)"
      and r: "f v = Inl [] \<or> (\<exists>r. f v = Inr r \<and> map_of (snd (validate_items sch m)) k = Some r)"
      using Cons.IH rec errs by auto
    have "map_of (snd (validate_items sch (kv # m))) k = map_of (snd (validate_items sch m)) k"
      using kv rec False by (auto split: option.splits sum.splits)
    then show ?thesis using c r by auto
  qed
qed

lemma Schema_Inr_iff:
  "Schema sch (PyDict kvs) = Inr out \<longleftrightarrow>
     fst (validate_items sch (insert_defaults sch (key_value_map kvs))) = []
     \<and> missing_required sch (insert_defaults sch (key_value_map kvs)) = []
     \<and> out = PyDict (snd (validate_items sch (insert_defaults sch (key_value_map kvs))))"
  by (auto simp: Schema_def Let_def split: prod.splits)

lemma Schema_Inr_dict: "Schema sch v = Inr out \<Longrightarrow> \<exists>kvs. v = PyDict kvs"
  by (cases v) (simp_all add: Schema_def)


lemma candidate_None_iff: "candidate sch k = None \<longleftrightarrow> k \<notin> set (schema_keys sch)"
  by (auto simp: candidate_def schema_keys_def find_None_iff image_iff)

lemma schema_keys_extend:
  "set (schema_keys (extend_schema base ext)) = set (schema_keys base) \<union> set (schema_keys ext)"
  by (auto simp: extend_schema_def schema_keys_def)

lemma find_filter_append:
  "\<forall>e \<in> set ext. \<not> P e \<Longrightarrow> \<forall>e. P e \<longrightarrow> Q e \<Longrightarrow> find P (filter Q base @ ext) = find P base"
proof (induction base)
  case Nil
  then show ?case by (simp add: find_None_iff)
next
  case (Cons a base)
  then show ?case by auto
qed

lemma candidate_extend_base:
  assumes "k \<notin> set (schema_keys ext)"
  shows "candidate (extend_schema base ext) k = candidate base k"
  unfolding candidate_def extend_schema_def
  by (rule find_filter_append) (use assms in \<open>auto simp: schema_keys_def\<close>)












lemma cv_int_result: "cv_int v = Inr r \<Longrightarrow> int_value r \<noteq> None"
  by (cases v) (auto simp: cv_int_def Let_def split: if_splits option.splits)

lemma cv_int_Inl_nonempty: "cv_int v \<noteq> Inl []"
  by (cases v) (auto simp: cv_int_def Let_def split: if_splits option.splits)

lemma number_of_int_value: "int_value r = Some n \<Longrightarrow> number_of r = Some (of_int n)"
  by (cases r) auto

lemma cv_Range_int:
  "int_value r = Some n \<Longrightarrow>
   cv_Range mn mx r = (if \<not> mn \<le> n then Inl [ValueAtLeast mn]
                        else if \<not> n \<le> mx then Inl [ValueAtMost mx] else Inr r)"
  by (simp add: cv_Range_def number_of_int_value)

lemma port_unfold:
  "port v = (case cv_int v of Inl e \<Rightarrow> Inl e | Inr r \<Rightarrow> cv_Range 1 65535 r)"
  by (simp add: port_def split: sum.splits)


lemma port_Inl_nonempty: "port v \<noteq> Inl []"
proof (cases "cv_int v")
  case (Inl e)
  then show ?thesis using cv_int_Inl_nonempty [of v] by (simp add: port_unfold)
next
  case (Inr r')
  then obtain n where n: "int_value r' = Some n" using cv_int_result by blast
  have "port v = cv_Range 1 65535 r'" using Inr by (simp add: port_unfold)
  then show ?thesis using cv_Range_int [OF n, of 1 65535] by auto
qed

lemma declare_id_Inl_nonempty: "declare_id h t v \<noteq> Inl []"
  by (cases v) (auto simp: declare_id_def split: sum.splits)

lemma candidate_id:
  assumes "CONF_ID \<notin> set (schema_keys ext)"
  shows "candidate (extend_schema
           [(GenerateID, declare_id h StreamServerComponent),
            (Optional CONF_PORT (Some (PyInt 6638)), port)] ext) CONF_ID =
         Some (GenerateID, declare_id h StreamServerComponent)"
proof -
  have "candidate [(GenerateID, declare_id h StreamServerComponent),
            (Optional CONF_PORT (Some (PyInt 6638)), port)] CONF_ID =
         Some (GenerateID, declare_id h StreamServerComponent)"
    by (simp add: candidate_def GenerateID_def)
  then show ?thesis by (simp only: candidate_extend_base [OF assms])
qed

lemma candidate_port:
  assumes "CONF_PORT \<notin> set (schema_keys ext)"
  shows "candidate (extend_schema
           [(GenerateID, declare_id h StreamServerComponent),
            (Optional CONF_PORT (Some (PyInt 6638)), port)] ext) CONF_PORT =
         Some (Optional CONF_PORT (Some (PyInt 6638)), port)"
proof -
  have "candidate [(GenerateID, declare_id h StreamServerComponent),
            (Optional CONF_PORT (Some (PyInt 6638)), port)] CONF_PORT =
         Some (Optional CONF_PORT (Some (PyInt 6638)), port)"
    by (simp add: candidate_def GenerateID_def CONF_ID_def CONF_PORT_def)
  then show ?thesis by (simp only: candidate_extend_base [OF assms])
qed

lemma CONFIG_SCHEMA_Inr:
  assumes "CONFIG_SCHEMA h config = Inr out"
  shows "\<not> tuple_lt (esphome_version h) (2022, 3, 0)"
    and "Schema (extend_schema
           [(GenerateID, declare_id h StreamServerComponent),
            (Optional CONF_PORT (Some (PyInt 6638)), port)] (COMPONENT_SCHEMA h)) config = Inr out"
proof -
  show v: "\<not> tuple_lt (esphome_version h) (2022, 3, 0)"
    using assms CONFIG_SCHEMA_old [of h config] by auto
  show "Schema (extend_schema
           [(GenerateID, declare_id h StreamServerComponent),
            (Optional CONF_PORT (Some (PyInt 6638)), port)] (COMPONENT_SCHEMA h)) config = Inr out"
    using assms CONFIG_SCHEMA_new [OF v, of config] by simp
qed

lemma validated_key:
  assumes ok: "Schema sch (PyDict kvs) = Inr out"
    and "map_of (insert_defaults sch (key_value_map kvs)) k = Some v"
    and "candidate sch k = Some (mk, f)"
    and "f v \<noteq> Inl []"
  shows "\<exists>r. f v = Inr r \<and> getitem out k = Inr r"
proof -
  let ?m = "insert_defaults sch (key_value_map kvs)"
  have e: "fst (validate_items sch ?m) = []" and o: "out = PyDict (snd (validate_items sch ?m))"
    using ok by (simp_all add: Schema_Inr_iff)
  obtain mk' f' where c: "candidate sch k = Some (mk', f')"
    and r: "f' v = Inl [] \<or> (\<exists>r. f' v = Inr r \<and> map_of (snd (validate_items sch ?m)) k = Some r)"
    using validate_items_ok [OF e assms(2)] by blast
  have "f' = f" using c assms(3) by simp
  then obtain r where "f v = Inr r" "map_of (snd (validate_items sch ?m)) k = Some r"
    using r assms(4) by auto
  then show ?thesis using o by (auto simp: getitem_def)
qed

lemma in_keys_map_of: "k \<in> fst ` set m \<Longrightarrow> \<exists>v. map_of m k = Some v"
  by (cases "map_of m k") (simp_all add: map_of_eq_None_iff)

lemma validated_has_key:
  assumes S: "Schema sch (PyDict kvs) = Inr out"
    and c: "candidate sch k = Some (Optional k (Some d), f)"
    and f: "\<And>v. f v \<noteq> Inl []"
  shows "\<exists>r. getitem out k = Inr r"
proof -
  let ?m = "insert_defaults sch (key_value_map kvs)"
  have "(Optional k (Some d), f) \<in> set sch"
    using c unfolding candidate_def by (metis find_Some_iff nth_mem)
  then have "k \<in> fst ` set ?m" by (rule insert_defaults_has_default)
  then have "\<exists>v. map_of ?m k = Some v" by (rule in_keys_map_of)
  then obtain v where v: "map_of ?m k = Some v" ..
  show ?thesis
    using validated_key [OF S v c f] by blast
qed

lemma validated_has_id_port:
  assumes ok: "CONFIG_SCHEMA h config = Inr out"
    and idk: "CONF_ID \<notin> set (schema_keys (COMPONENT_SCHEMA h))"
    and pk: "CONF_PORT \<notin> set (schema_keys (COMPONENT_SCHEMA h))"
  shows "\<exists>i p. getitem out CONF_ID = Inr i \<and> getitem out CONF_PORT = Inr p"
proof -
  let ?sch = "extend_schema
           [(GenerateID, declare_id h StreamServerComponent),
            (Optional CONF_PORT (Some (PyInt 6638)), port)] (COMPONENT_SCHEMA h)"
  have S: "Schema ?sch config = Inr out"
    by (rule CONFIG_SCHEMA_Inr(2) [OF ok])
  then obtain kvs where config: "config = PyDict kvs"
    using Schema_Inr_dict by blast
  have S': "Schema ?sch (PyDict kvs) = Inr out"
    using S config by simp
  have ci: "candidate ?sch CONF_ID = Some (Optional CONF_ID (Some PyNone), declare_id h StreamServerComponent)"
    using candidate_id [OF idk, of h] by (simp only: GenerateID_def)
  have "\<exists>i. getitem out CONF_ID = Inr i"
    by (rule validated_has_key [OF S' ci declare_id_Inl_nonempty])
  moreover have "\<exists>p. getitem out CONF_PORT = Inr p"
    by (rule validated_has_key [OF S' candidate_port [OF pk] port_Inl_nonempty])
  ultimately show ?thesis by blast
qed

lemma to_code_trace:
  "getitem config CONF_ID = Inr i \<Longrightarrow> getitem config CONF_PORT = Inr p \<Longrightarrow>
   to_code config code =
     (Inr (), code @ [New_Pvariable i, Add (set_port (Var i) p), Register_component (Var i) config])"
  by (simp add: to_code_def new_Pvariable_def add_def register_component_def)

lemmas eval_defs = CONFIG_SCHEMA_def require_esphome_version_def Schema_def extend_schema_def
  schema_keys_def GenerateID_def CONF_ID_def CONF_PORT_def key_value_map_def candidate_def
  declare_id_def StreamServerComponent_def port_def cv_int_def cv_Range_def example_host_def
  lower_def lower_char_def py_int_def py_isspace_def is_digit_def digit_value_def getitem_def
  py_trunc_def

section \<open>The configuration schema\<close>

subsection \<open>The framework version\<close>

text \<open>
  C4. \<^verbatim>\<open>CONFIG_SCHEMA\<close> accepts a configuration only when the host framework's version is
  at least 2022.3.0; on every lower version validation raises an error, whatever the
  configuration is.
\<close>

theorem requires_esphome_version:
  "((\<exists>out. CONFIG_SCHEMA h config = Inr out) \<longrightarrow> \<not> tuple_lt (esphome_version h) (2022, 3, 0))
   \<and> (tuple_lt (esphome_version h) (2022, 3, 0) \<longrightarrow>
        (\<exists>es. es \<noteq> [] \<and> CONFIG_SCHEMA h config = Inl es))"
  using CONFIG_SCHEMA_old [of h config] by auto

theorem requires_esphome_version_witness:
  "CONFIG_SCHEMA example_host (PyDict []) =
     Inr (PyDict [(''id'', PyID None True ''StreamServerComponent''), (''port'', PyInt 6638)])
   \<and> \<not> tuple_lt (esphome_version example_host) (2022, 3, 0)
   \<and> tuple_lt (esphome_version (example_host\<lparr>esphome_version := (2022, 2, 6)\<rparr>)) (2022, 3, 0)
   \<and> (\<exists>es. es \<noteq> [] \<and>
         CONFIG_SCHEMA (example_host\<lparr>esphome_version := (2022, 2, 6)\<rparr>) (PyDict []) = Inl es)"
  using requires_esphome_version [of example_host "PyDict []"]
    requires_esphome_version [of "example_host\<lparr>esphome_version := (2022, 2, 6)\<rparr>" "PyDict []"]
  by (simp add: eval_defs)



subsection \<open>The keys of a block\<close>

text \<open>
  C9. Apart from the identifier, the port and the keys of the component schema, no key
  is accepted: a configuration that holds any other key is rejected, and on a supported
  host the errors name that key.
\<close>

theorem extra_keys_not_allowed:
  assumes "(k, v) \<in> set kvs"
    and "k \<noteq> CONF_ID" and "k \<noteq> CONF_PORT"
    and "k \<notin> set (schema_keys (COMPONENT_SCHEMA h))"
  shows "\<exists>es. CONFIG_SCHEMA h (PyDict kvs) = Inl es \<and> es \<noteq> []
           \<and> (\<not> tuple_lt (esphome_version h) (2022, 3, 0) \<longrightarrow> ExtraKeysNotAllowed k \<in> set es)"
proof (cases "tuple_lt (esphome_version h) (2022, 3, 0)")
  case True
  then show ?thesis using CONFIG_SCHEMA_old [of h "PyDict kvs"] by simp
next
  case False
  let ?sch = "extend_schema
           [(GenerateID, declare_id h StreamServerComponent),
            (Optional CONF_PORT (Some (PyInt 6638)), port)] (COMPONENT_SCHEMA h)"
  let ?m = "insert_defaults ?sch (key_value_map kvs)"
  have "k \<in> fst ` set kvs" using assms(1) by (metis fst_conv image_eqI)
  then have "k \<in> fst ` set (key_value_map kvs)" by (simp add: keys_key_value_map)
  then have "k \<in> fst ` set ?m" using insert_defaults_keys_mono [of "key_value_map kvs" ?sch] by (rule set_mp [rotated])
  then obtain v' where v': "(k, v') \<in> set ?m" by auto
  have "k \<notin> set (schema_keys ?sch)"
    using assms(2-4) by (simp add: schema_keys_extend) (simp add: schema_keys_def GenerateID_def)
  then have "candidate ?sch k = None" by (simp add: candidate_None_iff)
  then have err: "ExtraKeysNotAllowed k \<in> set (fst (validate_items ?sch ?m))"
    using validate_items_extra [OF v'] by simp
  obtain errors out where vi: "validate_items ?sch ?m = (errors, out)"
    by (cases "validate_items ?sch ?m")
  have "Schema ?sch (PyDict kvs) = Inl (errors @ missing_required ?sch ?m)"
    using err vi by (auto simp: Schema_def Let_def)
  then show ?thesis using err vi CONFIG_SCHEMA_new [OF False, of "PyDict kvs"] by auto
qed

theorem extra_keys_not_allowed_witness:
  "(''baud_rate'', PyInt 9600) \<in> set [(''port'', PyInt 23), (''baud_rate'', PyInt 9600)]
   \<and> ''baud_rate'' \<noteq> CONF_ID \<and> ''baud_rate'' \<noteq> CONF_PORT
   \<and> ''baud_rate'' \<notin> set (schema_keys (COMPONENT_SCHEMA example_host))
   \<and> CONFIG_SCHEMA example_host (PyDict [(''port'', PyInt 23), (''baud_rate'', PyInt 9600)]) =
        Inl [ExtraKeysNotAllowed ''baud_rate'']"
  using extra_keys_not_allowed [of "''baud_rate''" "PyInt 9600"
      "[(''port'', PyInt 23), (''baud_rate'', PyInt 9600)]" example_host]
  by (simp add: eval_defs)

subsection \<open>The port\<close>







subsection \<open>Code generation\<close>

text \<open>
  C2. For every validated configuration \<^verbatim>\<open>to_code\<close> succeeds and appends exactly three
  calls to the generated code, in this order: the new variable under the configuration's
  identifier, \<^verbatim>\<open>set_port\<close> on that variable with the configuration's port, and the
  registration of the variable as a component. (The component schema of the host is
  assumed not to redefine the keys \<^verbatim>\<open>id\<close> and \<^verbatim>\<open>port\<close>.)
\<close>

theorem to_code_three_actions:
  assumes "CONFIG_SCHEMA h config = Inr out"
    and "CONF_ID \<notin> set (schema_keys (COMPONENT_SCHEMA h))"
    and "CONF_PORT \<notin> set (schema_keys (COMPONENT_SCHEMA h))"
  shows "\<exists>i p. getitem out CONF_ID = Inr i \<and> getitem out CONF_PORT = Inr p \<and>
           to_code out code =
             (Inr (), code @ [New_Pvariable i, Add (set_port (Var i) p),
                              Register_component (Var i) out])"
proof -
  obtain i p where "getitem out CONF_ID = Inr i" "getitem out CONF_PORT = Inr p"
    using validated_has_id_port [OF assms] by blast
  then show ?thesis using to_code_trace [of out i p code] by blast
qed

theorem to_code_three_actions_witness:
  "CONFIG_SCHEMA example_host (PyDict [(''id'', PyStr ''bridge''), (''port'', PyInt 23)]) =
     Inr (PyDict [(''id'', PyID (Some ''bridge'') True ''StreamServerComponent''), (''port'', PyInt 23)])
   \<and> CONF_ID \<notin> set (schema_keys (COMPONENT_SCHEMA example_host))
   \<and> CONF_PORT \<notin> set (schema_keys (COMPONENT_SCHEMA example_host))
   \<and> to_code (PyDict [(''id'', PyID (Some ''bridge'') True ''StreamServerComponent''), (''port'', PyInt 23)]) [] =
       (Inr (),
        [New_Pvariable (PyID (Some ''bridge'') True ''StreamServerComponent''),
         Add (MethodCall (Var (PyID (Some ''bridge'') True ''StreamServerComponent'')) ''set_port'' [PyInt 23]),
         Register_component (Var (PyID (Some ''bridge'') True ''StreamServerComponent''))
           (PyDict [(''id'', PyID (Some ''bridge'') True ''StreamServerComponent''), (''port'', PyInt 23)])])"
  using to_code_three_actions [of example_host
      "PyDict [(''id'', PyStr ''bridge''), (''port'', PyInt 23)]"
      "PyDict [(''id'', PyID (Some ''bridge'') True ''StreamServerComponent''), (''port'', PyInt 23)]" "[]"]
  by (simp add: eval_defs to_code_def new_Pvariable_def add_def register_component_def set_port_def)



subsection \<open>The module's constants\<close>



text \<open>
  C10. Whatever the configuration holds, the socket component is among the loaded
  components once \<^verbatim>\<open>AUTO_LOAD\<close> is processed, and the network component is required:
  without it the dependency check reports an error, with it the check passes.
\<close>

theorem auto_load_and_dependencies:
  "''socket'' \<in> fst ` set (process_auto_load AUTO_LOAD result)
   \<and> (''network'' \<notin> fst ` set result \<longrightarrow>
        check_dependencies ''stream_server'' DEPENDENCIES result =
          [RequiresComponent ''stream_server'' ''network''])
   \<and> (''network'' \<in> fst ` set result \<longrightarrow>
        check_dependencies ''stream_server'' DEPENDENCIES result = [])"
  by (auto simp: process_auto_load_def AUTO_LOAD_def check_dependencies_def DEPENDENCIES_def)

theorem auto_load_and_dependencies_witness:
  "process_auto_load AUTO_LOAD [(''stream_server'', PyDict [(''port'', PyInt 23)])] =
     [(''stream_server'', PyDict [(''port'', PyInt 23)]), (''socket'', PyDict [])]
   \<and> ''network'' \<notin> fst ` set [(''stream_server'', PyDict [(''port'', PyInt 23)])]
   \<and> check_dependencies ''stream_server'' DEPENDENCIES
        [(''stream_server'', PyDict [(''port'', PyInt 23)])] =
       [RequiresComponent ''stream_server'' ''network'']"
  using auto_load_and_dependencies [of "[(''stream_server'', PyDict [(''port'', PyInt 23)])]"]
  by (simp add: process_auto_load_def AUTO_LOAD_def check_dependencies_def DEPENDENCIES_def)

section \<open>Broadcast from the serial line\<close>



























end
